theory Spec2Isabelle
  imports Main "HOL-Library.Word" "HOL-Library.AList"
begin

section \<open>JavaScript values used by \<open>src/App.js\<close>\<close>

text \<open>
  A JavaScript string is a sequence of UTF-16 code units. String literals of the source
  are written with \<open>js\<close>, which maps each ASCII character to its code unit.
\<close>

type_synonym jsstring = "16 word list"

definition js :: "string \<Rightarrow> jsstring" where
  "js s = map (\<lambda>c. of_nat (of_char c)) s"

text \<open>
  \<open>String.prototype.trim\<close> removes leading and trailing code units that are WhiteSpace or
  LineTerminator in ECMAScript: TAB, LF, VT, FF, CR, SPACE, NBSP, U+1680, U+2000..U+200A,
  U+2028, U+2029, U+202F, U+205F, U+3000 and U+FEFF. All of them lie in the basic
  multilingual plane, so the test is one on single code units.
\<close>

definition js_whitespace :: "16 word \<Rightarrow> bool" where
  "js_whitespace c \<longleftrightarrow>
     c = 0x0009 \<or> c = 0x000A \<or> c = 0x000B \<or> c = 0x000C \<or> c = 0x000D \<or> c = 0x0020 \<or>
     c = 0x00A0 \<or> c = 0x1680 \<or> (0x2000 \<le> c \<and> c \<le> 0x200A) \<or> c = 0x2028 \<or> c = 0x2029 \<or>
     c = 0x202F \<or> c = 0x205F \<or> c = 0x3000 \<or> c = 0xFEFF"

definition trimStart :: "jsstring \<Rightarrow> jsstring" where
  "trimStart s = dropWhile js_whitespace s"

definition trimEnd :: "jsstring \<Rightarrow> jsstring" where
  "trimEnd s = rev (dropWhile js_whitespace (rev s))"

definition trim :: "jsstring \<Rightarrow> jsstring" where
  "trim s = trimEnd (trimStart s)"

text \<open>
  The values that flow through the component: \<open>undefined\<close>, \<open>null\<close>, booleans and strings.
  \<open>ToBoolean\<close> is the truthiness test behind \<open>if (x)\<close>, \<open>x && y\<close> and \<open>!x\<close>.
\<close>

datatype jsval = JUndefined | JNull | JBool bool | JStr jsstring

fun ToBoolean :: "jsval \<Rightarrow> bool" where
  "ToBoolean JUndefined = False"
| "ToBoolean JNull = False"
| "ToBoolean (JBool b) = b"
| "ToBoolean (JStr s) = (s \<noteq> [])"

definition js_not :: "jsval \<Rightarrow> jsval" where
  "js_not v = JBool (\<not> ToBoolean v)"

text \<open>
  A state cell that holds \<open>null\<close> or a string (\<open>userId\<close>, \<open>initialAuthToken\<close>) is an option;
  it is truthy when it holds a non-empty string.
\<close>

definition truthy :: "jsstring option \<Rightarrow> bool" where
  "truthy x = (case x of None \<Rightarrow> False | Some s \<Rightarrow> s \<noteq> [])"

text \<open>
  An object is the association list of its own properties in the order in which JavaScript
  enumerates them: the keys that are array indices (canonical decimal numerals below
  \<open>2^32 - 1\<close>) first, in ascending numeric order, then the other keys in the order in which
  they were created. Writing a property that exists replaces its value where it stands;
  a new array-index key is put at its numeric place, any other new key at the end. The
  spread \<open>{ ...source }\<close> inside a literal writes the properties of \<open>source\<close>, in their
  order, onto the properties the literal has so far.
\<close>

type_synonym jsobject = "(jsstring \<times> jsval) list"

definition get_prop :: "jsobject \<Rightarrow> jsstring \<Rightarrow> jsval" where
  "get_prop obj k = (case map_of obj k of None \<Rightarrow> JUndefined | Some v \<Rightarrow> v)"

definition is_digit :: "16 word \<Rightarrow> bool" where
  "is_digit c \<longleftrightarrow> 0x0030 \<le> c \<and> c \<le> 0x0039"

definition digits_value :: "jsstring \<Rightarrow> int" where
  "digits_value s = foldl (\<lambda>n c. 10 * n + (uint c - 48)) 0 s"

definition array_index :: "jsstring \<Rightarrow> int option" where
  "array_index k =
     (if k \<noteq> [] \<and> list_all is_digit k \<and> (hd k \<noteq> 0x0030 \<or> length k = 1) \<and>
         digits_value k < 4294967295
      then Some (digits_value k) else None)"

fun insert_index :: "int \<Rightarrow> jsstring \<Rightarrow> jsval \<Rightarrow> jsobject \<Rightarrow> jsobject" where
  "insert_index n k v [] = [(k, v)]"
| "insert_index n k v (p # ps) =
     (case array_index (fst p) of
        Some m \<Rightarrow> if m < n then p # insert_index n k v ps else (k, v) # p # ps
      | None \<Rightarrow> (k, v) # p # ps)"

definition define_prop :: "jsstring \<Rightarrow> jsval \<Rightarrow> jsobject \<Rightarrow> jsobject" where
  "define_prop k v obj =
     (case map_of obj k of
        Some old \<Rightarrow> AList.update k v obj
      | None \<Rightarrow>
          (case array_index k of
             None \<Rightarrow> obj @ [(k, v)]
           | Some n \<Rightarrow> insert_index n k v obj))"

definition spread :: "jsobject \<Rightarrow> jsobject \<Rightarrow> jsobject" where
  "spread target source = fold (\<lambda>(k, v). define_prop k v) source target"

section \<open>The backend calls and their effects\<close>

text \<open>
  The Firebase SDK is outside the repository; its reference constructors are modelled
  after the SDK. \<open>collection(db, path, ...pathSegments)\<close> and \<open>doc(db, path, ...pathSegments)\<close>
  refuse an empty first argument, refuse an argument that contains \<open>//\<close>, split every
  argument at \<open>/\<close> and drop the empty pieces. The pieces are the segments of the reference.
  A collection reference must have an odd number of segments and a document reference an
  even number; otherwise the constructor throws. The calls that reach the backend are
  recorded as \<open>sdk_call\<close> values, in the order in which the code makes them.
\<close>

datatype js_error = JsError jsstring

type_synonym path = "jsstring list"

definition slash :: "16 word" where
  "slash = 0x002F"

fun split_on :: "'a \<Rightarrow> 'a list \<Rightarrow> 'a list list" where
  "split_on c [] = [[]]"
| "split_on c (x # xs) =
     (if x = c then [] # split_on c xs
      else (case split_on c xs of [] \<Rightarrow> [[x]] | piece # pieces \<Rightarrow> (x # piece) # pieces))"

fun has_double_slash :: "jsstring \<Rightarrow> bool" where
  "has_double_slash (a # b # s) = ((a = slash \<and> b = slash) \<or> has_double_slash (b # s))"
| "has_double_slash s = False"

definition fromString :: "jsstring list \<Rightarrow> js_error + path" where
  "fromString pathComponents =
     (if list_ex has_double_slash pathComponents then Inl (JsError (js ''Invalid segment''))
      else Inr (concat (map (\<lambda>p. filter (\<lambda>segment. segment \<noteq> []) (split_on slash p))
                         pathComponents)))"

definition validateNonEmptyArgument :: "jsstring list \<Rightarrow> js_error + unit" where
  "validateNonEmptyArgument arguments =
     (case arguments of
        [] \<Rightarrow> Inl (JsError (js ''Invalid argument''))
      | p # rest \<Rightarrow> if p = [] then Inl (JsError (js ''Invalid argument'')) else Inr ())"

definition collection :: "jsstring list \<Rightarrow> js_error + path" where
  "collection arguments =
     (case validateNonEmptyArgument arguments of
        Inl e \<Rightarrow> Inl e
      | Inr _ \<Rightarrow>
          (case fromString arguments of
             Inl e \<Rightarrow> Inl e
           | Inr absolutePath \<Rightarrow>
               if even (length absolutePath)
               then Inl (JsError (js ''Invalid collection reference''))
               else Inr absolutePath))"

definition doc :: "jsstring list \<Rightarrow> js_error + path" where
  "doc arguments =
     (case validateNonEmptyArgument arguments of
        Inl e \<Rightarrow> Inl e
      | Inr _ \<Rightarrow>
          (case fromString arguments of
             Inl e \<Rightarrow> Inl e
           | Inr absolutePath \<Rightarrow>
               if odd (length absolutePath)
               then Inl (JsError (js ''Invalid document reference''))
               else Inr absolutePath))"


datatype sdk_call =
    AddDoc path jsobject
  | UpdateDoc path jsobject
  | DeleteDoc path
  | OnSnapshot path
  | SignInWithCustomToken jsstring
  | SignInAnonymously

text \<open>The five \<open>useState\<close> cells of \<open>App\<close> and their setters.\<close>

record app_state =
  todos :: "jsobject list"
  newTodo :: jsstring
  loading :: bool
  userId :: "jsstring option"
  authReady :: bool

definition initial_state :: app_state where
  "initial_state = \<lparr>todos = [], newTodo = [], loading = True, userId = None, authReady = False\<rparr>"

datatype setter =
    SetTodos "jsobject list"
  | SetNewTodo jsstring
  | SetLoading bool
  | SetUserId jsstring
  | SetAuthReady bool

fun apply_setter :: "setter \<Rightarrow> app_state \<Rightarrow> app_state" where
  "apply_setter (SetTodos ts) st = st\<lparr>todos := ts\<rparr>"
| "apply_setter (SetNewTodo s) st = st\<lparr>newTodo := s\<rparr>"
| "apply_setter (SetLoading b) st = st\<lparr>loading := b\<rparr>"
| "apply_setter (SetUserId u) st = st\<lparr>userId := Some u\<rparr>"
| "apply_setter (SetAuthReady b) st = st\<lparr>authReady := b\<rparr>"

text \<open>
  What running a callback does: the setters it calls, the backend calls it makes and the
  lines it writes with \<open>console.error\<close>, each in program order.
\<close>

record effects =
  setters :: "setter list"
  sdk_calls :: "sdk_call list"
  console_errors :: "(string \<times> js_error) list"

definition no_effects :: effects where
  "no_effects = \<lparr>setters = [], sdk_calls = [], console_errors = []\<rparr>"

definition seq_effects :: "effects \<Rightarrow> effects \<Rightarrow> effects" where
  "seq_effects a b = \<lparr>setters = setters a @ setters b, sdk_calls = sdk_calls a @ sdk_calls b,
     console_errors = console_errors a @ console_errors b\<rparr>"

definition commit :: "effects \<Rightarrow> app_state \<Rightarrow> app_state" where
  "commit e st = fold apply_setter (setters e) st"

text \<open>
  A computation yields its effects and either a value (\<open>Inr\<close>) or a thrown exception or
  rejected promise (\<open>Inl\<close>). A callback whose result is \<open>Inl\<close> lets the exception escape
  to its caller.
\<close>

type_synonym 'a comp = "effects \<times> (js_error + 'a)"

definition return_c :: "'a \<Rightarrow> 'a comp" where
  "return_c x = (no_effects, Inr x)"

definition bind_c :: "'a comp \<Rightarrow> ('a \<Rightarrow> 'b comp) \<Rightarrow> 'b comp" where
  "bind_c m f = (case m of
       (e, Inl err) \<Rightarrow> (e, Inl err)
     | (e, Inr x) \<Rightarrow> (case f x of (e', r) \<Rightarrow> (seq_effects e e', r)))"

definition try_catch :: "'a comp \<Rightarrow> (js_error \<Rightarrow> 'a comp) \<Rightarrow> 'a comp" where
  "try_catch m handler = (case m of
       (e, Inl err) \<Rightarrow> (case handler err of (e', r) \<Rightarrow> (seq_effects e e', r))
     | (e, Inr x) \<Rightarrow> (e, Inr x))"

text \<open>\<open>lift_c r\<close> is a call that has no effect of its own and returns or throws as \<open>r\<close> says.\<close>

definition lift_c :: "js_error + 'a \<Rightarrow> 'a comp" where
  "lift_c r = (no_effects, r)"

text \<open>
  \<open>await_call c outcome\<close> makes the backend call \<open>c\<close> and awaits it: \<open>outcome = None\<close> when
  the promise resolves, \<open>Some err\<close> when it rejects with \<open>err\<close>.
\<close>

definition await_call :: "sdk_call \<Rightarrow> js_error option \<Rightarrow> unit comp" where
  "await_call c outcome =
     (\<lparr>setters = [], sdk_calls = [c], console_errors = []\<rparr>,
      case outcome of None \<Rightarrow> Inr () | Some err \<Rightarrow> Inl err)"

text \<open>\<open>call_sdk c\<close> makes the backend call \<open>c\<close> without awaiting anything.\<close>

definition call_sdk :: "sdk_call \<Rightarrow> unit comp" where
  "call_sdk c = (\<lparr>setters = [], sdk_calls = [c], console_errors = []\<rparr>, Inr ())"

definition set_state :: "setter \<Rightarrow> unit comp" where
  "set_state s = (\<lparr>setters = [s], sdk_calls = [], console_errors = []\<rparr>, Inr ())"

definition console_error :: "string \<Rightarrow> js_error \<Rightarrow> unit comp" where
  "console_error msg err = (\<lparr>setters = [], sdk_calls = [], console_errors = [(msg, err)]\<rparr>, Inr ())"

section \<open>The component \<open>App\<close>\<close>

text \<open>
  The module constants \<open>appId\<close> and \<open>initialAuthToken\<close> come from the globals
  \<open>__app_id\<close> and \<open>__initial_auth_token\<close> of the hosting page, each of which may be
  undefined (\<open>None\<close>).
\<close>

record config =
  appId :: jsstring
  initialAuthToken :: "jsstring option"

definition module_config :: "jsstring option \<Rightarrow> jsstring option \<Rightarrow> config" where
  "module_config app_id initial_auth_token =
     \<lparr>appId = (case app_id of None \<Rightarrow> js ''default-app-id'' | Some a \<Rightarrow> a),
      initialAuthToken = initial_auth_token\<rparr>"

text \<open>The callback given to \<open>onAuthStateChanged\<close>; \<open>user\<close> is \<open>Some uid\<close> for a user object.\<close>

definition authStateChanged :: "config \<Rightarrow> jsstring option \<Rightarrow> js_error option \<Rightarrow> unit comp" where
  "authStateChanged cfg user outcome =
     (case user of
        Some uid \<Rightarrow> bind_c (set_state (SetUserId uid)) (\<lambda>_. set_state (SetAuthReady True))
      | None \<Rightarrow>
          try_catch
            (case initialAuthToken cfg of
               None \<Rightarrow> await_call SignInAnonymously outcome
             | Some token \<Rightarrow>
                 if token \<noteq> [] then await_call (SignInWithCustomToken token) outcome
                 else await_call SignInAnonymously outcome)
            (\<lambda>e. bind_c (console_error ''Error signing in:'' e)
                    (\<lambda>_. set_state (SetAuthReady True))))"

text \<open>The body of the data fetching effect, and the two callbacks it gives to \<open>onSnapshot\<close>.\<close>

definition dataFetchingEffect :: "config \<Rightarrow> app_state \<Rightarrow> unit comp" where
  "dataFetchingEffect cfg st =
     (case userId st of
        None \<Rightarrow> return_c ()
      | Some uid \<Rightarrow>
          if \<not> authReady st \<or> uid = [] then return_c ()
          else
            bind_c (lift_c (collection [js ''artifacts'', appId cfg, js ''users'', uid, js ''todos'']))
              (\<lambda>todosCollection. call_sdk (OnSnapshot todosCollection)))"

record snapshot_doc =
  doc_id :: jsstring
  doc_data :: jsobject

definition todo_of_doc :: "snapshot_doc \<Rightarrow> jsobject" where
  "todo_of_doc d = spread [(js ''id'', JStr (doc_id d))] (doc_data d)"

definition onSnapshot_next :: "snapshot_doc list \<Rightarrow> unit comp" where
  "onSnapshot_next querySnapshot =
     bind_c (set_state (SetTodos (map todo_of_doc querySnapshot)))
       (\<lambda>_. set_state (SetLoading False))"

definition onSnapshot_error :: "js_error \<Rightarrow> unit comp" where
  "onSnapshot_error err =
     bind_c (console_error ''Error listening for todos:'' err)
       (\<lambda>_. set_state (SetLoading False))"

text \<open>
  The three mutation handlers. \<open>outcome\<close> is the fate of the awaited backend call. The form
  event of \<open>handleAddTodo\<close> is used for \<open>preventDefault\<close> only and is left out; the input is
  read from the state cell \<open>newTodo\<close>. The guard \<open>if (!userId) return\<close> is the case \<open>None\<close>
  (\<open>null\<close>) together with the test for the empty string, the two falsy values the cell can
  hold (\<open>truthy\<close>). In \<open>handleAddTodo\<close> the call of \<open>collection\<close> stands inside the \<open>try\<close>
  block; in \<open>handleToggleTodo\<close> and \<open>handleDeleteTodo\<close> the call of \<open>doc\<close> stands before it.
\<close>

definition handleAddTodo :: "config \<Rightarrow> app_state \<Rightarrow> js_error option \<Rightarrow> unit comp" where
  "handleAddTodo cfg st outcome =
     (let text = trim (newTodo st) in
      case userId st of
        None \<Rightarrow> return_c ()
      | Some uid \<Rightarrow>
          if text \<noteq> [] \<and> uid \<noteq> [] then
            try_catch
              (bind_c
                 (lift_c (collection [js ''artifacts'', appId cfg, js ''users'', uid, js ''todos'']))
                 (\<lambda>todosCollection.
                    bind_c
                      (await_call
                         (AddDoc todosCollection
                            [(js ''text'', JStr text), (js ''completed'', JBool False)])
                         outcome)
                      (\<lambda>_. set_state (SetNewTodo []))))
              (\<lambda>e. console_error ''Error adding document: '' e)
          else return_c ())"

definition handleToggleTodo ::
  "config \<Rightarrow> app_state \<Rightarrow> jsstring \<Rightarrow> jsval \<Rightarrow> js_error option \<Rightarrow> unit comp" where
  "handleToggleTodo cfg st ident currentCompleted outcome =
     (case userId st of
        None \<Rightarrow> return_c ()
      | Some uid \<Rightarrow>
          if uid = [] then return_c ()
          else
            bind_c (lift_c (doc [js ''artifacts'', appId cfg, js ''users'', uid, js ''todos'', ident]))
              (\<lambda>docRef.
                 try_catch
                   (await_call (UpdateDoc docRef [(js ''completed'', js_not currentCompleted)])
                      outcome)
                   (\<lambda>e. console_error ''Error updating document: '' e)))"

definition handleDeleteTodo ::
  "config \<Rightarrow> app_state \<Rightarrow> jsstring \<Rightarrow> js_error option \<Rightarrow> unit comp" where
  "handleDeleteTodo cfg st ident outcome =
     (case userId st of
        None \<Rightarrow> return_c ()
      | Some uid \<Rightarrow>
          if uid = [] then return_c ()
          else
            bind_c (lift_c (doc [js ''artifacts'', appId cfg, js ''users'', uid, js ''todos'', ident]))
              (\<lambda>docRef.
                 try_catch
                   (await_call (DeleteDoc docRef) outcome)
                   (\<lambda>e. console_error ''Error deleting document: '' e)))"

section \<open>Notions used to state the properties\<close>

text \<open>
  A callback run is a no-op when it makes no backend call, calls no setter, writes no log
  line and returns normally.
\<close>

definition noop :: "unit comp \<Rightarrow> bool" where
  "noop r \<longleftrightarrow> sdk_calls (fst r) = [] \<and> setters (fst r) = [] \<and> console_errors (fst r) = [] \<and>
     snd r = Inr ()"

text \<open>A plain segment is a non-empty string without \<open>/\<close>: it is one segment of a path.\<close>

definition plain :: "jsstring \<Rightarrow> bool" where
  "plain s \<longleftrightarrow> s \<noteq> [] \<and> slash \<notin> set s"


section \<open>Auxiliary facts\<close>

lemmas comp_defs = return_c_def bind_c_def try_catch_def await_call_def call_sdk_def set_state_def
  console_error_def lift_c_def no_effects_def seq_effects_def commit_def

lemmas trim_defs = trim_def trimStart_def trimEnd_def

lemma truthy_iff: "truthy x \<longleftrightarrow> (\<exists>s. x = Some s \<and> s \<noteq> [])"
  by (cases x) (simp_all add: truthy_def)

lemma split_on_no_separator: "c \<notin> set s \<Longrightarrow> split_on c s = [s]"
  by (induction s) auto

lemma no_double_slash: "slash \<notin> set s \<Longrightarrow> \<not> has_double_slash s"
  by (induction s rule: has_double_slash.induct) auto

lemma plain_pieces: "plain s \<Longrightarrow> filter (\<lambda>segment. segment \<noteq> []) (split_on slash s) = [s]"
  by (simp add: plain_def split_on_no_separator)

lemma fromString_plain: "list_all plain segments \<Longrightarrow> fromString segments = Inr segments"
proof -
  assume all: "list_all plain segments"
  then have "\<not> list_ex has_double_slash segments"
    by (auto simp: list_all_iff list_ex_iff plain_def no_double_slash)
  moreover from all
  have "concat (map (\<lambda>p. filter (\<lambda>segment. segment \<noteq> []) (split_on slash p)) segments) = segments"
    by (induction segments) (simp_all add: plain_pieces)
  ultimately show ?thesis
    by (simp add: fromString_def)
qed

lemma collection_plain:
  "list_all plain segments \<Longrightarrow> odd (length segments) \<Longrightarrow> collection segments = Inr segments"
  by (cases segments)
     (simp_all add: collection_def validateNonEmptyArgument_def fromString_plain plain_def)

lemma doc_plain:
  "list_all plain segments \<Longrightarrow> even (length segments) \<Longrightarrow> segments \<noteq> [] \<Longrightarrow>
   doc segments = Inr segments"
  by (cases segments)
     (simp_all add: doc_def validateNonEmptyArgument_def fromString_plain plain_def)

lemma plain_literals:
  "plain (js ''artifacts'')" "plain (js ''users'')" "plain (js ''todos'')"
  by (simp_all add: plain_def js_def slash_def)

lemma todos_collection_plain:
  "plain (appId cfg) \<Longrightarrow> plain uid \<Longrightarrow>
   collection [js ''artifacts'', appId cfg, js ''users'', uid, js ''todos''] =
     Inr [js ''artifacts'', appId cfg, js ''users'', uid, js ''todos'']"
  by (rule collection_plain) (simp_all add: plain_literals)

lemma todo_doc_plain:
  "plain (appId cfg) \<Longrightarrow> plain uid \<Longrightarrow> plain ident \<Longrightarrow>
   doc [js ''artifacts'', appId cfg, js ''users'', uid, js ''todos'', ident] =
     Inr [js ''artifacts'', appId cfg, js ''users'', uid, js ''todos'', ident]"
  by (rule doc_plain) (simp_all add: plain_literals)

lemma trimEnd_prefix: "\<exists>zs. s = trimEnd s @ zs"
proof -
  have "rev s = takeWhile js_whitespace (rev s) @ dropWhile js_whitespace (rev s)"
    by simp
  then have "s = rev (dropWhile js_whitespace (rev s)) @ rev (takeWhile js_whitespace (rev s))"
    by (metis rev_append rev_rev_ident)
  then show ?thesis
    unfolding trimEnd_def by blast
qed

lemma trimStart_hd: "trimStart s \<noteq> [] \<Longrightarrow> \<not> js_whitespace (hd (trimStart s))"
  unfolding trimStart_def by (rule hd_dropWhile)

lemma trimEnd_last: "trimEnd s \<noteq> [] \<Longrightarrow> \<not> js_whitespace (last (trimEnd s))"
proof -
  assume ne: "trimEnd s \<noteq> []"
  then have d: "dropWhile js_whitespace (rev s) \<noteq> []"
    by (simp add: trimEnd_def)
  have "last (trimEnd s) = hd (dropWhile js_whitespace (rev s))"
    using d by (simp add: trimEnd_def last_rev)
  with d show ?thesis
    by (simp add: hd_dropWhile)
qed

lemma trim_hd: "trim s \<noteq> [] \<Longrightarrow> \<not> js_whitespace (hd (trim s))"
proof -
  assume ne: "trim s \<noteq> []"
  obtain zs where split: "trimStart s = trim s @ zs"
    using trimEnd_prefix [of "trimStart s"] by (auto simp: trim_def)
  with ne have "trimStart s \<noteq> []" and "hd (trimStart s) = hd (trim s)"
    by auto
  then show ?thesis
    using trimStart_hd [of s] by simp
qed

lemma trim_last: "trim s \<noteq> [] \<Longrightarrow> \<not> js_whitespace (last (trim s))"
  unfolding trim_def by (rule trimEnd_last)

lemma trimEnd_empty_iff: "trimEnd s = [] \<longleftrightarrow> (\<forall>c \<in> set s. js_whitespace c)"
  by (simp add: trimEnd_def)

lemma trimStart_empty_iff: "trimStart s = [] \<longleftrightarrow> (\<forall>c \<in> set s. js_whitespace c)"
  by (simp add: trimStart_def)

lemma trim_empty_iff: "trim s = [] \<longleftrightarrow> (\<forall>c \<in> set s. js_whitespace c)"
proof
  assume e: "trim s = []"
  show "\<forall>c \<in> set s. js_whitespace c"
  proof (cases "trimStart s = []")
    case True
    then show ?thesis by (simp add: trimStart_empty_iff)
  next
    case False
    then have "hd (trimStart s) \<in> set (trimStart s)" and "\<not> js_whitespace (hd (trimStart s))"
      by (simp_all add: trimStart_hd)
    moreover from e have "\<forall>c \<in> set (trimStart s). js_whitespace c"
      by (simp add: trim_def trimEnd_empty_iff)
    ultimately show ?thesis by blast
  qed
next
  assume "\<forall>c \<in> set s. js_whitespace c"
  then have "trimStart s = []" by (simp add: trimStart_empty_iff)
  then show "trim s = []" by (simp add: trim_def trimEnd_def)
qed

lemma insert_index_map_of:
  "map_of ps k = None \<Longrightarrow> map_of (insert_index n k v ps) = (map_of ps)(k \<mapsto> v)"
proof (induction ps)
  case Nil
  then show ?case by simp
next
  case (Cons p ps)
  from Cons.prems have ne: "fst p \<noteq> k" and rest: "map_of ps k = None"
    by (cases p; simp split: if_splits)+
  show ?case
  proof (cases "\<exists>m. array_index (fst p) = Some m \<and> m < n")
    case True
    then have "insert_index n k v (p # ps) = p # insert_index n k v ps"
      by auto
    then show ?thesis
      using Cons.IH [OF rest] ne by (cases p) (auto simp: fun_upd_twist)
  next
    case False
    then have "insert_index n k v (p # ps) = (k, v) # p # ps"
      by (auto split: option.splits)
    then show ?thesis
      by (cases p) (simp add: fun_eq_iff)
  qed
qed

lemma define_prop_map_of: "map_of (define_prop k v obj) = (map_of obj)(k \<mapsto> v)"
proof (cases "map_of obj k")
  case None
  show ?thesis
  proof (cases "array_index k")
    case no_index: None
    have "map_of (obj @ [(k, v)]) = (map_of obj)(k \<mapsto> v)"
      using None by (auto simp: fun_eq_iff map_add_def split: option.splits)
    then show ?thesis
      by (simp add: define_prop_def None no_index)
  next
    case (Some n)
    then show ?thesis
      by (simp add: define_prop_def None insert_index_map_of)
  qed
next
  case (Some old)
  then show ?thesis
    by (simp add: define_prop_def update_conv')
qed

lemma spread_map_of: "map_of (spread target source) = map_of target ++ map_of (rev source)"
proof (induction source arbitrary: target)
  case Nil
  then show ?case by (simp add: spread_def)
next
  case (Cons kv source)
  obtain k v where kv: "kv = (k, v)" by (cases kv)
  have step: "spread target (kv # source) = spread (define_prop k v target) source"
    by (simp add: spread_def kv)
  have "map_of (spread (define_prop k v target) source) =
      map_of (define_prop k v target) ++ map_of (rev source)"
    by (rule Cons.IH)
  also have "\<dots> = map_of target ++ map_of (rev (kv # source))"
    by (simp add: kv define_prop_map_of)
  finally show ?case
    by (simp only: step)
qed

lemma todo_of_doc_id:
  "js ''id'' \<notin> fst ` set (doc_data d) \<Longrightarrow> get_prop (todo_of_doc d) (js ''id'') = JStr (doc_id d)"
proof -
  assume "js ''id'' \<notin> fst ` set (doc_data d)"
  then have "map_of (rev (doc_data d)) (js ''id'') = None"
    by (simp add: map_of_eq_None_iff)
  then show ?thesis
    by (simp add: get_prop_def todo_of_doc_def spread_map_of map_add_def)
qed

lemma todo_of_doc_fields:
  "distinct (map fst (doc_data d)) \<Longrightarrow> (k, v) \<in> set (doc_data d) \<Longrightarrow> get_prop (todo_of_doc d) k = v"
proof -
  assume "distinct (map fst (doc_data d))" and "(k, v) \<in> set (doc_data d)"
  then have "map_of (rev (doc_data d)) k = Some v"
    by (simp add: distinct_rev rev_map [symmetric])
  then show ?thesis
    by (simp add: get_prop_def todo_of_doc_def spread_map_of map_add_def)
qed

lemma onSnapshot_next_replaces:
  "commit (fst (onSnapshot_next docs)) st = st\<lparr>todos := map todo_of_doc docs, loading := False\<rparr>"
  by (simp add: onSnapshot_next_def comp_defs)

lemmas handler_defs = handleAddTodo_def handleToggleTodo_def handleDeleteTodo_def
  authStateChanged_def dataFetchingEffect_def onSnapshot_next_def onSnapshot_error_def

lemma noop_commit: "noop r \<Longrightarrow> commit (fst r) st = st"
  by (simp add: noop_def commit_def)

lemma noop_return: "noop (return_c ())"
  by (simp add: noop_def comp_defs)

lemma absent_handlers_noop:
  assumes "\<not> truthy (userId st)"
  shows "noop (handleAddTodo cfg st o1)" and "noop (handleToggleTodo cfg st ident cc o2)"
    and "noop (handleDeleteTodo cfg st ident o3)" and "noop (dataFetchingEffect cfg st)"
proof -
  from assms have "userId st = None \<or> userId st = Some []"
    by (cases "userId st") (simp_all add: truthy_def)
  then have "handleAddTodo cfg st o1 = return_c ()"
    and "handleToggleTodo cfg st ident cc o2 = return_c ()"
    and "handleDeleteTodo cfg st ident o3 = return_c ()"
    and "dataFetchingEffect cfg st = return_c ()"
    by (auto simp: handler_defs)
  then show "noop (handleAddTodo cfg st o1)" and "noop (handleToggleTodo cfg st ident cc o2)"
    and "noop (handleDeleteTodo cfg st ident o3)" and "noop (dataFetchingEffect cfg st)"
    by (simp_all add: noop_return)
qed



lemma js_Nil: "js [] = []"
  by (simp add: js_def)

lemma js_eq_Nil: "js s = [] \<longleftrightarrow> s = []"
  by (simp add: js_def)

lemma handleAddTodo_cases:
  "handleAddTodo cfg st outcome =
     (case userId st of
        None \<Rightarrow> (no_effects, Inr ())
      | Some uid \<Rightarrow>
          if trim (newTodo st) \<noteq> [] \<and> uid \<noteq> [] then
            (case collection [js ''artifacts'', appId cfg, js ''users'', uid, js ''todos''] of
               Inl e \<Rightarrow>
                 (\<lparr>setters = [], sdk_calls = [],
                   console_errors = [(''Error adding document: '', e)]\<rparr>, Inr ())
             | Inr todosCollection \<Rightarrow>
                 (case outcome of
                    None \<Rightarrow>
                      (\<lparr>setters = [SetNewTodo []],
                        sdk_calls = [AddDoc todosCollection
                          [(js ''text'', JStr (trim (newTodo st))), (js ''completed'', JBool False)]],
                        console_errors = []\<rparr>, Inr ())
                  | Some err \<Rightarrow>
                      (\<lparr>setters = [],
                        sdk_calls = [AddDoc todosCollection
                          [(js ''text'', JStr (trim (newTodo st))), (js ''completed'', JBool False)]],
                        console_errors = [(''Error adding document: '', err)]\<rparr>, Inr ())))
          else (no_effects, Inr ()))"
  by (simp add: handleAddTodo_def comp_defs Let_def split: option.splits sum.splits)

lemma handleToggleTodo_cases:
  "handleToggleTodo cfg st ident currentCompleted outcome =
     (case userId st of
        None \<Rightarrow> (no_effects, Inr ())
      | Some uid \<Rightarrow>
          if uid = [] then (no_effects, Inr ())
          else
            (case doc [js ''artifacts'', appId cfg, js ''users'', uid, js ''todos'', ident] of
               Inl e \<Rightarrow> (no_effects, Inl e)
             | Inr docRef \<Rightarrow>
                 (\<lparr>setters = [],
                   sdk_calls = [UpdateDoc docRef [(js ''completed'', js_not currentCompleted)]],
                   console_errors =
                     (case outcome of None \<Rightarrow> []
                      | Some err \<Rightarrow> [(''Error updating document: '', err)])\<rparr>, Inr ())))"
  by (simp add: handleToggleTodo_def comp_defs split: option.splits sum.splits)


lemma dataFetchingEffect_cases:
  "dataFetchingEffect cfg st =
     (case userId st of
        None \<Rightarrow> (no_effects, Inr ())
      | Some uid \<Rightarrow>
          if \<not> authReady st \<or> uid = [] then (no_effects, Inr ())
          else
            (case collection [js ''artifacts'', appId cfg, js ''users'', uid, js ''todos''] of
               Inl e \<Rightarrow> (no_effects, Inl e)
             | Inr todosCollection \<Rightarrow>
                 (\<lparr>setters = [], sdk_calls = [OnSnapshot todosCollection], console_errors = []\<rparr>,
                  Inr ())))"
  by (simp add: dataFetchingEffect_def comp_defs split: option.splits sum.splits)

lemma data_effect_builds_reference:
  assumes "userId st = Some uid" and "uid \<noteq> []" and "authReady st"
    and "snd (dataFetchingEffect cfg st) = Inr ()"
  shows "\<exists>todosCollection.
      collection [js ''artifacts'', appId cfg, js ''users'', uid, js ''todos''] = Inr todosCollection
    \<and> sdk_calls (fst (dataFetchingEffect cfg st)) = [OnSnapshot todosCollection]"
  using assms
  by (cases "collection [js ''artifacts'', appId cfg, js ''users'', uid, js ''todos'']")
     (simp_all add: dataFetchingEffect_cases)

lemma doc_empty_id:
  "doc [js ''artifacts'', js ''app'', js ''users'', js ''u1'', js ''todos'', []] =
     Inl (JsError (js ''Invalid document reference''))"
  by (simp add: doc_def fromString_def validateNonEmptyArgument_def slash_def js_def)


section \<open>Properties of the handlers\<close>

text \<open>
  C1. A snapshot notification replaces the mirror by the items built from the delivered
  documents (\<open>onSnapshot_next_replaces\<close>), and each item carries the document's fields and,
  when the document has no field named \<open>id\<close>, the document id (\<open>todo_of_doc_id\<close>,
  \<open>todo_of_doc_fields\<close>). The spread is written after the \<open>id\<close> property, so a document
  with a field named \<open>id\<close> yields an item whose \<open>id\<close> is that field and not the document
  id: for the document \<open>x1\<close> with data \<open>{id: "zz", text: "a", completed: false}\<close> the
  mirror holds an item with \<open>id = "zz"\<close>.
\<close>
theorem snapshot_item_loses_document_id:
  "todos (commit (fst (onSnapshot_next
      [\<lparr>doc_id = js ''x1'',
        doc_data = [(js ''id'', JStr (js ''zz'')), (js ''text'', JStr (js ''a'')),
                    (js ''completed'', JBool False)]\<rparr>])) initial_state)
     = [[(js ''id'', JStr (js ''zz'')), (js ''text'', JStr (js ''a'')),
         (js ''completed'', JBool False)]]
   \<and> get_prop (todo_of_doc
      \<lparr>doc_id = js ''x1'',
       doc_data = [(js ''id'', JStr (js ''zz'')), (js ''text'', JStr (js ''a'')),
                   (js ''completed'', JBool False)]\<rparr>) (js ''id'') \<noteq> JStr (js ''x1'')"
  by (simp add: onSnapshot_next_def comp_defs todo_of_doc_def spread_def define_prop_def
      array_index_def is_digit_def get_prop_def js_def)

text \<open>
  C2, for the document ids that \<open>doc\<close> accepts. With an identity present, and for every document id with which \<open>doc\<close>
  accepts the path and returns the reference \<open>docRef\<close>, \<open>handleToggleTodo\<close> called with a
  boolean makes exactly one backend call: an update of \<open>docRef\<close> whose only field is
  \<open>completed\<close> with the negated boolean. It calls no setter, makes no read call, and its
  result does not depend on the mirror. When the application id, the identity and the
  document id are plain segments, \<open>docRef\<close> is the document \<open>ident\<close> of the user's \<open>todos\<close>
  collection.
\<close>
theorem toggle_issues_one_update:
  assumes "userId st = Some uid" and "uid \<noteq> []"
    and "doc [js ''artifacts'', appId cfg, js ''users'', uid, js ''todos'', ident] = Inr docRef"
  shows "sdk_calls (fst (handleToggleTodo cfg st ident (JBool b) outcome)) =
           [UpdateDoc docRef [(js ''completed'', JBool (\<not> b))]]
         \<and> setters (fst (handleToggleTodo cfg st ident (JBool b) outcome)) = []
         \<and> snd (handleToggleTodo cfg st ident (JBool b) outcome) = Inr ()
         \<and> handleToggleTodo cfg (st\<lparr>todos := ts\<rparr>) ident (JBool b) outcome =
             handleToggleTodo cfg st ident (JBool b) outcome
         \<and> (plain (appId cfg) \<and> plain uid \<and> plain ident \<longrightarrow>
             docRef = [js ''artifacts'', appId cfg, js ''users'', uid, js ''todos'', ident])"
proof -
  have run: "sdk_calls (fst (handleToggleTodo cfg st ident (JBool b) outcome)) =
           [UpdateDoc docRef [(js ''completed'', JBool (\<not> b))]]
         \<and> setters (fst (handleToggleTodo cfg st ident (JBool b) outcome)) = []
         \<and> snd (handleToggleTodo cfg st ident (JBool b) outcome) = Inr ()
         \<and> handleToggleTodo cfg (st\<lparr>todos := ts\<rparr>) ident (JBool b) outcome =
             handleToggleTodo cfg st ident (JBool b) outcome"
    using assms
    by (simp add: handleToggleTodo_cases js_not_def)
  have "docRef = [js ''artifacts'', appId cfg, js ''users'', uid, js ''todos'', ident]"
    if "plain (appId cfg)" and "plain uid" and "plain ident"
    using todo_doc_plain [OF that] assms(3) by simp
  with run show ?thesis by blast
qed

text \<open>The two directions of the flip, at concrete inputs.\<close>
theorem toggle_issues_one_update_witness:
  "sdk_calls (fst (handleToggleTodo \<lparr>appId = js ''app'', initialAuthToken = None\<rparr>
       (initial_state\<lparr>userId := Some (js ''u1'')\<rparr>) (js ''x1singleUnder'') (JBool True) None)) =
     [UpdateDoc [js ''artifacts'', js ''app'', js ''users'', js ''u1'', js ''todos'', js ''x1singleUnder'']
        [(js ''completed'', JBool False)]]
   \<and> sdk_calls (fst (handleToggleTodo \<lparr>appId = js ''app'', initialAuthToken = None\<rparr>
       (initial_state\<lparr>userId := Some (js ''u1'')\<rparr>) (js ''x1'') (JBool False) None)) =
     [UpdateDoc [js ''artifacts'', js ''app'', js ''users'', js ''u1'', js ''todos'', js ''x1'']
        [(js ''completed'', JBool True)]]"
proof -
  have u: "userId (initial_state\<lparr>userId := Some (js ''u1'')\<rparr>) = Some (js ''u1'')"
    by simp
  have n: "js ''u1'' \<noteq> []"
    by (simp add: js_def)
  have p: "plain (appId \<lparr>appId = js ''app'', initialAuthToken = None\<rparr>)" "plain (js ''u1'')" "plain (js ''x1singleUnder'')" "plain (js ''x1'')"
    by (simp_all add: plain_def js_def slash_def)
  have d1: "doc [js ''artifacts'', appId \<lparr>appId = js ''app'', initialAuthToken = None\<rparr>, js ''users'', js ''u1'', js ''todos'', js ''x1singleUnder'']
      = Inr [js ''artifacts'', js ''app'', js ''users'', js ''u1'', js ''todos'', js ''x1singleUnder'']"
    using todo_doc_plain [OF p(1) p(2) p(3)] by simp
  have d2: "doc [js ''artifacts'', appId \<lparr>appId = js ''app'', initialAuthToken = None\<rparr>, js ''users'', js ''u1'', js ''todos'', js ''x1'']
      = Inr [js ''artifacts'', js ''app'', js ''users'', js ''u1'', js ''todos'', js ''x1'']"
    using todo_doc_plain [OF p(1) p(2) p(4)] by simp
  show ?thesis
    using toggle_issues_one_update [OF u n d1, of True None]
      toggle_issues_one_update [OF u n d2, of False None]
    by simp
qed

text \<open>
  C2 does not hold for every document id. For the empty id \<open>doc\<close> refuses the path, which then has five
  segments, before \<open>updateDoc\<close> is reached, and no update is issued.
\<close>
theorem toggle_empty_id_issues_no_update:
  "truthy (userId (initial_state\<lparr>userId := Some (js ''u1'')\<rparr>))
   \<and> sdk_calls (fst (handleToggleTodo \<lparr>appId = js ''app'', initialAuthToken = None\<rparr>
       (initial_state\<lparr>userId := Some (js ''u1'')\<rparr>) (js '''') (JBool True) None)) = []"
  by (simp add: truthy_def handleToggleTodo_cases doc_empty_id no_effects_def js_Nil js_eq_Nil)



text \<open>
  C4. When the input is empty after trimming, \<open>handleAddTodo\<close> has no effect at all, whether
  or not an identity is present: no backend call, no setter, no log line.
\<close>
theorem add_blank_issues_nothing:
  assumes "trim (newTodo st) = []"
  shows "handleAddTodo cfg st outcome = (no_effects, Inr ())"
  using assms
  by (simp add: handleAddTodo_def comp_defs split: option.splits)

text \<open>The inputs \<open>""\<close> and three spaces, with and without an identity.\<close>
theorem add_blank_issues_nothing_witness:
  "sdk_calls (fst (handleAddTodo \<lparr>appId = js ''app'', initialAuthToken = None\<rparr>
       (initial_state\<lparr>newTodo := js ''   '', userId := Some (js ''u1'')\<rparr>) None)) = []
   \<and> sdk_calls (fst (handleAddTodo \<lparr>appId = js ''app'', initialAuthToken = None\<rparr>
       (initial_state\<lparr>newTodo := js '''', userId := Some (js ''u1'')\<rparr>) None)) = []
   \<and> sdk_calls (fst (handleAddTodo \<lparr>appId = js ''app'', initialAuthToken = None\<rparr>
       (initial_state\<lparr>newTodo := js ''   ''\<rparr>) None)) = []"
proof -
  have a: "trim (newTodo (initial_state\<lparr>newTodo := js ''   '', userId := Some (js ''u1'')\<rparr>)) = []"
    by (simp add: trim_defs js_def js_whitespace_def)
  have b: "trim (newTodo (initial_state\<lparr>newTodo := js '''', userId := Some (js ''u1'')\<rparr>)) = []"
    by (simp add: trim_defs js_def)
  have c: "trim (newTodo (initial_state\<lparr>newTodo := js ''   ''\<rparr>)) = []"
    by (simp add: trim_defs js_def js_whitespace_def)
  show ?thesis
    using add_blank_issues_nothing [OF a, of "\<lparr>appId = js ''app'', initialAuthToken = None\<rparr>" None]
      add_blank_issues_nothing [OF b, of "\<lparr>appId = js ''app'', initialAuthToken = None\<rparr>" None]
      add_blank_issues_nothing [OF c, of "\<lparr>appId = js ''app'', initialAuthToken = None\<rparr>" None]
    by (simp add: no_effects_def)
qed

text \<open>
  C5. While no identity is present (\<open>userId\<close> is \<open>null\<close> or the empty string), each of the
  three mutation handlers is a no-op: it makes no backend call, calls no setter, so the
  state stays as it is, and it returns normally, whatever the backend would have answered.
\<close>
theorem mutations_without_identity_are_noops:
  assumes "\<not> truthy (userId st)"
  shows "noop (handleAddTodo cfg st outcome) \<and> commit (fst (handleAddTodo cfg st outcome)) st = st
       \<and> noop (handleToggleTodo cfg st ident currentCompleted outcome)
       \<and> commit (fst (handleToggleTodo cfg st ident currentCompleted outcome)) st = st
       \<and> noop (handleDeleteTodo cfg st ident outcome)
       \<and> commit (fst (handleDeleteTodo cfg st ident outcome)) st = st"
  using absent_handlers_noop [OF assms] by (simp add: noop_commit)


text \<open>The three handlers in the initial state, with a backend that would reject.\<close>
theorem mutations_without_identity_are_noops_witness:
  "noop (handleAddTodo \<lparr>appId = js ''app'', initialAuthToken = None\<rparr>
      (initial_state\<lparr>newTodo := js ''buy milk''\<rparr>) (Some (JsError (js ''down''))))
   \<and> noop (handleToggleTodo \<lparr>appId = js ''app'', initialAuthToken = None\<rparr>
      (initial_state\<lparr>newTodo := js ''buy milk''\<rparr>) (js ''x1'') (JBool True) (Some (JsError (js ''down''))))
   \<and> noop (handleDeleteTodo \<lparr>appId = js ''app'', initialAuthToken = None\<rparr>
      (initial_state\<lparr>newTodo := js ''buy milk''\<rparr>) (js ''x1'') (Some (JsError (js ''down''))))"
proof -
  have h: "\<not> truthy (userId (initial_state\<lparr>newTodo := js ''buy milk''\<rparr>))"
    by (simp add: truthy_def initial_state_def)
  show ?thesis
    using mutations_without_identity_are_noops [OF h,
        of "\<lparr>appId = js ''app'', initialAuthToken = None\<rparr>" "Some (JsError (js ''down''))"
          "js ''x1''" "JBool True"]
    by simp
qed







text \<open>
  C8. The error callback of the subscription logs the error and sets \<open>loading\<close> to false;
  every other state cell, the mirror \<open>todos\<close> among them, is unchanged, and no backend call
  (no new subscription) is made.
\<close>
theorem subscription_error_keeps_mirror:
  "commit (fst (onSnapshot_error err)) st = st\<lparr>loading := False\<rparr>
   \<and> todos (commit (fst (onSnapshot_error err)) st) = todos st
   \<and> \<not> loading (commit (fst (onSnapshot_error err)) st)
   \<and> console_errors (fst (onSnapshot_error err)) = [(''Error listening for todos:'', err)]
   \<and> sdk_calls (fst (onSnapshot_error err)) = []
   \<and> snd (onSnapshot_error err) = Inr ()"
  by (simp add: onSnapshot_error_def comp_defs)

text \<open>A mirror of one item survives a subscription error.\<close>
theorem subscription_error_keeps_mirror_witness:
  "commit (fst (onSnapshot_error (JsError (js ''offline''))))
     \<lparr>todos = [[(js ''id'', JStr (js ''x1'')), (js ''text'', JStr (js ''buy milk'')),
                (js ''completed'', JBool False)]],
      newTodo = [], loading = True, userId = Some (js ''u1''), authReady = True\<rparr>
   = \<lparr>todos = [[(js ''id'', JStr (js ''x1'')), (js ''text'', JStr (js ''buy milk'')),
                (js ''completed'', JBool False)]],
      newTodo = [], loading = False, userId = Some (js ''u1''), authReady = True\<rparr>"
  using subscription_error_keeps_mirror [of "JsError (js ''offline'')"
      "\<lparr>todos = [[(js ''id'', JStr (js ''x1'')), (js ''text'', JStr (js ''buy milk'')),
                (js ''completed'', JBool False)]],
      newTodo = [], loading = True, userId = Some (js ''u1''), authReady = True\<rparr>"]
  by simp

text \<open>
  C9. \<open>handleAddTodo\<close> calls \<open>setNewTodo('')\<close> exactly when it made the create call and the
  call resolved. When the call is rejected no setter is called, so whatever state \<open>st'\<close> the
  component has by then is left as it is, and the error is logged and does not escape.
\<close>
theorem input_cleared_only_on_success:
  "setters (fst (handleAddTodo cfg st outcome)) =
     (if sdk_calls (fst (handleAddTodo cfg st outcome)) \<noteq> [] \<and> outcome = None
      then [SetNewTodo []] else [])
   \<and> (outcome = Some err \<longrightarrow>
        commit (fst (handleAddTodo cfg st outcome)) st' = st'
      \<and> (sdk_calls (fst (handleAddTodo cfg st outcome)) \<noteq> [] \<longrightarrow>
           console_errors (fst (handleAddTodo cfg st outcome)) = [(''Error adding document: '', err)]))
   \<and> (outcome = None \<and> sdk_calls (fst (handleAddTodo cfg st outcome)) \<noteq> [] \<longrightarrow>
        newTodo (commit (fst (handleAddTodo cfg st outcome)) st') = [])
   \<and> snd (handleAddTodo cfg st outcome) = Inr ()"
  by (simp add: handleAddTodo_cases commit_def no_effects_def split: option.splits sum.splits)

text \<open>The input \<open>buy milk\<close> is kept when the create is rejected and cleared when it resolves.\<close>
theorem input_cleared_only_on_success_witness:
  "newTodo (commit (fst (handleAddTodo \<lparr>appId = js ''app'', initialAuthToken = None\<rparr>
       (initial_state\<lparr>newTodo := js ''buy milk'', userId := Some (js ''u1'')\<rparr>)
       (Some (JsError (js ''denied'')))))
     (initial_state\<lparr>newTodo := js ''buy milk'', userId := Some (js ''u1'')\<rparr>)) = js ''buy milk''
   \<and> newTodo (commit (fst (handleAddTodo \<lparr>appId = js ''app'', initialAuthToken = None\<rparr>
       (initial_state\<lparr>newTodo := js ''buy milk'', userId := Some (js ''u1'')\<rparr>) None))
     (initial_state\<lparr>newTodo := js ''buy milk'', userId := Some (js ''u1'')\<rparr>)) = []"
proof -
  let ?cfg = "\<lparr>appId = js ''app'', initialAuthToken = None\<rparr>"
  let ?st = "initial_state\<lparr>newTodo := js ''buy milk'', userId := Some (js ''u1'')\<rparr>"
  have t: "trim (js ''buy milk'') \<noteq> []"
    by (simp add: trim_defs js_def js_whitespace_def)
  have n: "js ''u1'' \<noteq> []"
    by (simp add: js_def)
  have p: "plain (appId ?cfg)" "plain (js ''u1'')"
    by (simp_all add: plain_def js_def slash_def)
  have issued: "sdk_calls (fst (handleAddTodo ?cfg ?st None)) \<noteq> []"
    using t n todos_collection_plain [OF p] by (simp add: handleAddTodo_cases)
  show ?thesis
    using input_cleared_only_on_success [of ?cfg ?st "Some (JsError (js ''denied''))"
        "JsError (js ''denied'')" ?st]
      input_cleared_only_on_success [of ?cfg ?st None "JsError (js ''denied'')" ?st] issued
    by simp
qed

text \<open>
  C10. Every create call made by \<open>handleAddTodo\<close> stores the trimmed input as \<open>text\<close>, and
  that text is non-empty and neither starts nor ends with a whitespace code unit. When the
  trimmed input is non-empty, an identity is present and \<open>collection\<close> builds the reference,
  such a call is made.
\<close>
theorem created_text_is_trimmed:
  "(AddDoc p payload \<in> set (sdk_calls (fst (handleAddTodo cfg st outcome))) \<longrightarrow>
      payload = [(js ''text'', JStr (trim (newTodo st))), (js ''completed'', JBool False)]
    \<and> trim (newTodo st) \<noteq> []
    \<and> \<not> js_whitespace (hd (trim (newTodo st)))
    \<and> \<not> js_whitespace (last (trim (newTodo st))))
   \<and> (trim (newTodo st) \<noteq> [] \<and> userId st = Some uid \<and> uid \<noteq> [] \<and>
      collection [js ''artifacts'', appId cfg, js ''users'', uid, js ''todos''] = Inr q \<longrightarrow>
      sdk_calls (fst (handleAddTodo cfg st outcome)) =
         [AddDoc q [(js ''text'', JStr (trim (newTodo st))), (js ''completed'', JBool False)]])"
proof (rule conjI; rule impI)
  assume "AddDoc p payload \<in> set (sdk_calls (fst (handleAddTodo cfg st outcome)))"
  then have "payload = [(js ''text'', JStr (trim (newTodo st))), (js ''completed'', JBool False)]
      \<and> trim (newTodo st) \<noteq> []"
    by (cases "userId st"; cases outcome)
       (simp_all add: handleAddTodo_cases no_effects_def split: if_splits sum.splits)
  then show "payload = [(js ''text'', JStr (trim (newTodo st))), (js ''completed'', JBool False)]
      \<and> trim (newTodo st) \<noteq> []
      \<and> \<not> js_whitespace (hd (trim (newTodo st)))
      \<and> \<not> js_whitespace (last (trim (newTodo st)))"
    by (simp add: trim_hd trim_last)
next
  assume "trim (newTodo st) \<noteq> [] \<and> userId st = Some uid \<and> uid \<noteq> [] \<and>
      collection [js ''artifacts'', appId cfg, js ''users'', uid, js ''todos''] = Inr q"
  then show "sdk_calls (fst (handleAddTodo cfg st outcome)) =
      [AddDoc q [(js ''text'', JStr (trim (newTodo st))), (js ''completed'', JBool False)]]"
    by (cases outcome) (simp_all add: handleAddTodo_cases)
qed

text \<open>The input \<open>buy milk\<close> with two spaces on each side is stored as \<open>buy milk\<close>.\<close>
theorem created_text_is_trimmed_witness:
  "sdk_calls (fst (handleAddTodo \<lparr>appId = js ''app'', initialAuthToken = None\<rparr>
       (initial_state\<lparr>newTodo := js ''  buy milk  '', userId := Some (js ''u1'')\<rparr>) None)) =
     [AddDoc [js ''artifacts'', js ''app'', js ''users'', js ''u1'', js ''todos'']
        [(js ''text'', JStr (js ''buy milk'')), (js ''completed'', JBool False)]]
   \<and> \<not> js_whitespace (hd (js ''buy milk'')) \<and> \<not> js_whitespace (last (js ''buy milk''))"
proof -
  let ?cfg = "\<lparr>appId = js ''app'', initialAuthToken = None\<rparr>"
  let ?st = "initial_state\<lparr>newTodo := js ''  buy milk  '', userId := Some (js ''u1'')\<rparr>"
  let ?p = "[js ''artifacts'', js ''app'', js ''users'', js ''u1'', js ''todos'']"
  let ?f = "[(js ''text'', JStr (js ''buy milk'')), (js ''completed'', JBool False)]"
  have t: "trim (newTodo ?st) = js ''buy milk''"
    by (simp add: trim_defs js_def js_whitespace_def)
  have t0: "js ''buy milk'' \<noteq> []"
    by (simp add: js_def)
  have u: "userId ?st = Some (js ''u1'')" and n: "js ''u1'' \<noteq> []"
    by (simp_all add: js_def)
  have pl: "plain (appId ?cfg)" "plain (js ''u1'')"
    by (simp_all add: plain_def js_def slash_def)
  have c: "collection [js ''artifacts'', appId ?cfg, js ''users'', js ''u1'', js ''todos''] = Inr ?p"
    using todos_collection_plain [OF pl] by simp
  have a: "trim (newTodo ?st) \<noteq> []"
    unfolding t by (rule t0)
  note w = created_text_is_trimmed [of ?p ?f ?cfg ?st None "js ''u1''" ?p]
  from w a u n c have "sdk_calls (fst (handleAddTodo ?cfg ?st None)) =
      [AddDoc ?p [(js ''text'', JStr (trim (newTodo ?st))), (js ''completed'', JBool False)]]"
    by blast
  then have calls: "sdk_calls (fst (handleAddTodo ?cfg ?st None)) = [AddDoc ?p ?f]"
    unfolding t .
  then have m: "AddDoc ?p ?f \<in> set (sdk_calls (fst (handleAddTodo ?cfg ?st None)))"
    by simp
  from w m have "\<not> js_whitespace (hd (trim (newTodo ?st)))
      \<and> \<not> js_whitespace (last (trim (newTodo ?st)))"
    by blast
  then have "\<not> js_whitespace (hd (js ''buy milk'')) \<and> \<not> js_whitespace (last (js ''buy milk''))"
    unfolding t .
  with calls show ?thesis
    by blast
qed

end
